theory Spec2Isabelle
  imports Complex_Main
begin

section \<open>Python strings\<close>

text \<open>
  The fetcher works on Python \<^verbatim>\<open>str\<close> values. They are modelled as \<^typ>\<open>string\<close>; the
  character classes below are those of Python on the ASCII range. A character outside
  ASCII counts as neither whitespace, digit nor letter and has no upper case here.
\<close>

definition ascii_lowercase :: string where
  "ascii_lowercase = ''abcdefghijklmnopqrstuvwxyz''"

definition ascii_uppercase :: string where
  "ascii_uppercase = ''ABCDEFGHIJKLMNOPQRSTUVWXYZ''"

definition digits :: string where
  "digits = ''0123456789''"

text \<open>\<^verbatim>\<open>str.isspace\<close> on ASCII: TAB, LF, VT, FF, CR, the separators FS, GS, RS, US and the blank.\<close>

definition whitespace :: string where
  "whitespace = [CHR 0x09, CHR 0x0A, CHR 0x0B, CHR 0x0C, CHR 0x0D,
                 CHR 0x1C, CHR 0x1D, CHR 0x1E, CHR 0x1F, CHR 0x20]"

definition is_space :: "char \<Rightarrow> bool" where
  "is_space c = (c \<in> set whitespace)"

text \<open>\<^verbatim>\<open>s.strip()\<close>: leading and trailing whitespace removed.\<close>

definition strip :: "string \<Rightarrow> string" where
  "strip s = rev (dropWhile is_space (rev (dropWhile is_space s)))"

definition upper_char :: "char \<Rightarrow> char" where
  "upper_char c = (case map_of (zip ascii_lowercase ascii_uppercase) c of
                     Some u \<Rightarrow> u | None \<Rightarrow> c)"

text \<open>\<^verbatim>\<open>s.upper()\<close>\<close>

definition upper :: "string \<Rightarrow> string" where
  "upper s = map upper_char s"

text \<open>\<^verbatim>\<open>s.startswith(p)\<close>\<close>

definition startswith :: "string \<Rightarrow> string \<Rightarrow> bool" where
  "startswith s p = (take (length p) s = p)"

text \<open>\<^verbatim>\<open>s.isdigit()\<close> and \<^verbatim>\<open>s.isalpha()\<close>: false on the empty string.\<close>

definition isdigit :: "string \<Rightarrow> bool" where
  "isdigit s = (s \<noteq> [] \<and> list_all (\<lambda>c. c \<in> set digits) s)"

definition isalpha :: "string \<Rightarrow> bool" where
  "isalpha s = (s \<noteq> [] \<and> list_all (\<lambda>c. c \<in> set (ascii_lowercase @ ascii_uppercase)) s)"

text \<open>
  \<^verbatim>\<open>s.split(sep)\<close> for a one-character separator: the pieces between the separators,
  empty pieces kept, so the result is never the empty list.
\<close>

fun split :: "char \<Rightarrow> string \<Rightarrow> string list" where
  "split sep [] = [[]]"
| "split sep (c # cs) =
     (if c = sep then [] # split sep cs
      else (c # hd (split sep cs)) # tl (split sep cs))"

section \<open>Symbol translator\<close>

text \<open>
  \<^verbatim>\<open>_convert_to_longport_symbol\<close> has ten \<^verbatim>\<open>return\<close> statements (the last line holds two,
  one per arm of its conditional expression). \<open>convert_traced\<close> is the function with each
  of them labelled, so that a statement about which one ran can be made.
\<close>

datatype arm =
    KnownSuffix | UnknownSuffix
  | RuleSH | RuleSZ | RuleBJ | RuleHK5 | RuleHKDigit | RuleUS
  | FallbackSH | FallbackSZ

definition convert_traced :: "string \<Rightarrow> arm \<times> string" where
  "convert_traced code =
    (let stock_code = strip code in
     if CHR ''.'' \<in> set stock_code then
       (let parts = split (CHR ''.'') stock_code;
            suffix = upper (last parts)
        in if suffix \<in> set [''SH'', ''SZ'', ''HK'', ''US'']
           then (KnownSuffix, upper stock_code)
           else (UnknownSuffix, stock_code))
     else if startswith stock_code ''6'' then (RuleSH, stock_code @ ''.SH'')
     else if startswith stock_code ''00'' \<or> startswith stock_code ''30''
       then (RuleSZ, stock_code @ ''.SZ'')
     else if startswith stock_code ''8'' \<or> startswith stock_code ''4''
       then (RuleBJ, stock_code @ ''.BJ'')
     else if startswith stock_code ''0'' \<and> length stock_code = 5
       then (RuleHK5, stock_code @ ''.HK'')
     else if isdigit stock_code \<and> length stock_code \<le> 5
       then (RuleHKDigit, stock_code @ ''.HK'')
     else if isalpha stock_code then (RuleUS, stock_code @ ''.US'')
     else if startswith stock_code ''6'' then (FallbackSH, stock_code @ ''.SH'')
     else (FallbackSZ, stock_code @ ''.SZ''))"

definition convert_to_longport_symbol :: "string \<Rightarrow> string" where
  "convert_to_longport_symbol code = snd (convert_traced code)"

text \<open>
  The rule table of the specification for a code without separator: the conditions in
  order, each with the suffix it appends. The first condition that holds decides.
\<close>

definition prefix_rules :: "((string \<Rightarrow> bool) \<times> string) list" where
  "prefix_rules =
    [(\<lambda>c. startswith c ''6'', ''.SH''),
     (\<lambda>c. startswith c ''00'' \<or> startswith c ''30'', ''.SZ''),
     (\<lambda>c. startswith c ''8'' \<or> startswith c ''4'', ''.BJ''),
     (\<lambda>c. startswith c ''0'' \<and> length c = 5, ''.HK''),
     (\<lambda>c. isdigit c \<and> length c \<le> 5, ''.HK''),
     (\<lambda>c. isalpha c, ''.US'')]"

definition first_match :: "string \<Rightarrow> string option" where
  "first_match c = map_option snd (find (\<lambda>r. fst r c) prefix_rules)"

text \<open>The part of a string after its last occurrence of a character (the whole string if there is none).\<close>

definition after_last :: "char \<Rightarrow> string \<Rightarrow> string" where
  "after_last sep s = rev (takeWhile (\<lambda>c. c \<noteq> sep) (rev s))"

section \<open>Exceptions, log records and the provider\<close>

text \<open>
  A raised exception is a value: its class and the text \<^verbatim>\<open>str(e)\<close>. \<open>DataFetchError\<close> is
  the fetchers' own error class, \<open>LibraryError\<close> stands for any exception class of a
  library (the provider SDK included) that derives from \<^verbatim>\<open>Exception\<close>, named by its class
  name. \<open>KeyboardInterrupt\<close> and \<open>SystemExit\<close> derive from \<^verbatim>\<open>BaseException\<close> only, so a
  clause \<^verbatim>\<open>except Exception\<close> does not catch them.
\<close>

datatype exn_class =
    DataFetchError
  | ValueError | TypeError | KeyError | AttributeError
  | LibraryError string
  | KeyboardInterrupt | SystemExit

datatype exn = Exn (cls: exn_class) (msg: string)

fun is_Exception :: "exn_class \<Rightarrow> bool" where
  "is_Exception KeyboardInterrupt = False"
| "is_Exception SystemExit = False"
| "is_Exception _ = True"

record date =
  year :: nat
  month :: nat
  day :: nat

text \<open>\<open>decimal w n\<close>: the last \<open>w\<close> decimal digits of \<open>n\<close>, zero-padded.\<close>

fun decimal :: "nat \<Rightarrow> nat \<Rightarrow> string" where
  "decimal 0 n = []"
| "decimal (Suc w) n = decimal w (n div 10) @ [digits ! (n mod 10)]"

text \<open>\<^verbatim>\<open>str(d)\<close> of a date, its ISO form (years have four digits: they are at most 9999).\<close>

definition date_str :: "date \<Rightarrow> string" where
  "date_str d = decimal 4 (year d) @ ''-'' @ decimal 2 (month d) @ ''-'' @ decimal 2 (day d)"

datatype period = Min_1 | Day | Week | Month

datatype adjust_type = NoAdjust | ForwardAdjust

text \<open>
  Floating-point values: the finite ones with exact arithmetic (rounding, overflow and the
  sign of zero are not modelled), the two infinities and NaN, which pandas reads as
  ``missing''.
\<close>

datatype pyfloat = Fin real | PosInf | NegInf | NaN

text \<open>
  A candle of the provider is an opaque object. What the retriever does with it is to
  evaluate \<^verbatim>\<open>candle.time.strftime("%Y-%m-%d")\<close> and \<^verbatim>\<open>float(candle.f)\<close> for six fields;
  a candle is modelled by the outcome of each of these seven expressions, a value or a
  raised exception.
\<close>

record candle =
  time_strftime :: "exn + string"
  open_float :: "exn + pyfloat"
  high_float :: "exn + pyfloat"
  low_float :: "exn + pyfloat"
  close_float :: "exn + pyfloat"
  volume_float :: "exn + pyfloat"
  turnover_float :: "exn + pyfloat"

text \<open>
  The client handle \<^verbatim>\<open>self.ctx\<close>, when set, is the outcome of its one operation
  \<^verbatim>\<open>history_candlesticks_by_date(symbol, period, adjust, start, end)\<close>: the network call.
\<close>

type_synonym quote_context =
  "string \<Rightarrow> period \<Rightarrow> adjust_type \<Rightarrow> date \<Rightarrow> date \<Rightarrow> exn + candle list"

text \<open>What the retriever does to the world, in order: log records and network calls.\<close>

datatype level = INFO | WARNING | ERROR

datatype event =
    Log level string
  | HistoryCandlesticksByDate string period adjust_type date date

section \<open>Tables\<close>

text \<open>
  A \<^verbatim>\<open>pandas.DataFrame\<close>: the length of its index and its columns in order, each a name
  with one cell per row. The index labels play no role in the normalizer and are left out.
\<close>

datatype cell = Str string | Num pyfloat

record dataframe =
  nrows :: nat
  cols :: "(string \<times> cell list) list"

definition column_names :: "dataframe \<Rightarrow> string list" where
  "column_names df = map fst (cols df)"

text \<open>A well-formed table: distinct column names, every column as long as the index.\<close>

definition wf_dataframe :: "dataframe \<Rightarrow> bool" where
  "wf_dataframe df =
     (distinct (column_names df) \<and> list_all (\<lambda>c. length (snd c) = nrows df) (cols df))"

text \<open>\<^verbatim>\<open>df.empty\<close>: true when either axis has length 0.\<close>

definition df_empty :: "dataframe \<Rightarrow> bool" where
  "df_empty df = (nrows df = 0 \<or> cols df = [])"

text \<open>\<^verbatim>\<open>pd.DataFrame()\<close> and \<^verbatim>\<open>pd.DataFrame(columns=names)\<close>\<close>

definition DataFrame_columns :: "string list \<Rightarrow> dataframe" where
  "DataFrame_columns names = \<lparr>nrows = 0, cols = map (\<lambda>c. (c, [])) names\<rparr>"

definition DataFrame_empty :: dataframe where
  "DataFrame_empty = DataFrame_columns []"

section \<open>Raw retriever\<close>

text \<open>One row of \<^verbatim>\<open>data\<close>: the dictionary built for a candle, its seven entries in order.\<close>

type_synonym row = "(string \<times> cell) list"

text \<open>
  The dictionary display evaluates its values left to right; the first that raises ends it.
\<close>

definition candle_row :: "candle \<Rightarrow> exn + row" where
  "candle_row candle =
    (case time_strftime candle of Inl e \<Rightarrow> Inl e | Inr d \<Rightarrow>
     case open_float candle of Inl e \<Rightarrow> Inl e | Inr opn \<Rightarrow>
     case high_float candle of Inl e \<Rightarrow> Inl e | Inr h \<Rightarrow>
     case low_float candle of Inl e \<Rightarrow> Inl e | Inr l \<Rightarrow>
     case close_float candle of Inl e \<Rightarrow> Inl e | Inr c \<Rightarrow>
     case volume_float candle of Inl e \<Rightarrow> Inl e | Inr v \<Rightarrow>
     case turnover_float candle of Inl e \<Rightarrow> Inl e | Inr a \<Rightarrow>
       Inr [(''date'', Str d), (''open'', Num opn), (''high'', Num h), (''low'', Num l),
            (''close'', Num c), (''volume'', Num v), (''amount'', Num a)])"

text \<open>The loop \<^verbatim>\<open>for candle in candlesticks: data.append({...})\<close>.\<close>

fun candle_rows :: "candle list \<Rightarrow> row list \<Rightarrow> exn + row list" where
  "candle_rows [] data = Inr data"
| "candle_rows (candle # rest) data =
     (case candle_row candle of
        Inl e \<Rightarrow> Inl e
      | Inr r \<Rightarrow> candle_rows rest (data @ [r]))"

text \<open>
  \<^verbatim>\<open>pd.DataFrame(data)\<close> for a non-empty list of dictionaries that all have the keys of the
  first, as the rows built above do.
\<close>

definition DataFrame_rows :: "row list \<Rightarrow> dataframe" where
  "DataFrame_rows data =
     \<lparr>nrows = length data,
      cols = map (\<lambda>k. (k, map (\<lambda>r. the (map_of r k)) data)) (map fst (hd data))\<rparr>"

text \<open>
  The body of the \<^verbatim>\<open>try\<close> block. \<open>strptime\<close> is the library call
  \<^verbatim>\<open>datetime.strptime(s, "%Y-%m-%d").date()\<close>.
\<close>

definition fetch_try ::
  "(string \<Rightarrow> exn + date) \<Rightarrow> quote_context \<Rightarrow> string \<Rightarrow> string \<Rightarrow> string
     \<Rightarrow> event list \<times> (exn + dataframe)" where
  "fetch_try strptime ctx symbol start_date end_date =
    (case strptime start_date of Inl e \<Rightarrow> ([], Inl e) | Inr start \<Rightarrow>
     case strptime end_date of Inl e \<Rightarrow> ([], Inl e) | Inr end' \<Rightarrow>
     let call = HistoryCandlesticksByDate symbol Day ForwardAdjust start end' in
     case ctx symbol Day ForwardAdjust start end' of
       Inl e \<Rightarrow> ([call], Inl e)
     | Inr candlesticks \<Rightarrow>
         if candlesticks = [] then
           ([call,
             Log WARNING (''No data found for '' @ symbol @ '' from '' @ date_str start
                            @ '' to '' @ date_str end')],
            Inr DataFrame_empty)
         else
           (case candle_rows candlesticks [] of
              Inl e \<Rightarrow> ([call], Inl e)
            | Inr data \<Rightarrow> ([call], Inr (DataFrame_rows data))))"

text \<open>
  \<^verbatim>\<open>_fetch_raw_data\<close>: the check of the handle, the translation of the symbol, and the
  \<^verbatim>\<open>try\<close> block under its handler \<^verbatim>\<open>except Exception as e\<close>, which logs and raises
  \<open>DataFetchError\<close>; an exception that is not an \<^verbatim>\<open>Exception\<close> passes through it.
\<close>

definition fetch_raw_data ::
  "(string \<Rightarrow> exn + date) \<Rightarrow> quote_context option \<Rightarrow> string \<Rightarrow> string \<Rightarrow> string
     \<Rightarrow> event list \<times> (exn + dataframe)" where
  "fetch_raw_data strptime ctx stock_code start_date end_date =
    (case ctx of
       None \<Rightarrow>
         ([], Inl (Exn DataFetchError ''LongPort context not initialized or credentials missing''))
     | Some c \<Rightarrow>
         (let symbol = convert_to_longport_symbol stock_code in
          case fetch_try strptime c symbol start_date end_date of
            (evs, Inr df) \<Rightarrow> (evs, Inr df)
          | (evs, Inl e) \<Rightarrow>
              if is_Exception (cls e) then
                (evs @ [Log ERROR (''Error fetching data from LongPort for '' @ symbol
                                     @ '': '' @ msg e)],
                 Inl (Exn DataFetchError (''LongPort fetch error: '' @ msg e)))
              else (evs, Inl e)))"

section \<open>Arithmetic of a numeric column\<close>

text \<open>
  Division, subtraction and multiplication as numpy does them on 64-bit floats: a finite
  value divided by zero is an infinity, or NaN for \<open>0 / 0\<close>; no operation raises.
\<close>

fun fdiv :: "pyfloat \<Rightarrow> pyfloat \<Rightarrow> pyfloat" where
  "fdiv NaN _ = NaN"
| "fdiv _ NaN = NaN"
| "fdiv (Fin a) (Fin b) =
     (if b \<noteq> 0 then Fin (a / b) else if a = 0 then NaN else if 0 < a then PosInf else NegInf)"
| "fdiv (Fin a) _ = Fin 0"
| "fdiv PosInf (Fin b) = (if 0 \<le> b then PosInf else NegInf)"
| "fdiv NegInf (Fin b) = (if 0 \<le> b then NegInf else PosInf)"
| "fdiv _ _ = NaN"

fun fsub :: "pyfloat \<Rightarrow> pyfloat \<Rightarrow> pyfloat" where
  "fsub NaN _ = NaN"
| "fsub _ NaN = NaN"
| "fsub (Fin a) (Fin b) = Fin (a - b)"
| "fsub (Fin a) PosInf = NegInf"
| "fsub (Fin a) NegInf = PosInf"
| "fsub PosInf PosInf = NaN"
| "fsub PosInf _ = PosInf"
| "fsub NegInf NegInf = NaN"
| "fsub NegInf _ = NegInf"

fun fmul :: "pyfloat \<Rightarrow> pyfloat \<Rightarrow> pyfloat" where
  "fmul NaN _ = NaN"
| "fmul _ NaN = NaN"
| "fmul (Fin a) (Fin b) = Fin (a * b)"
| "fmul (Fin a) PosInf = (if a = 0 then NaN else if 0 < a then PosInf else NegInf)"
| "fmul (Fin a) NegInf = (if a = 0 then NaN else if 0 < a then NegInf else PosInf)"
| "fmul PosInf (Fin b) = (if b = 0 then NaN else if 0 < b then PosInf else NegInf)"
| "fmul NegInf (Fin b) = (if b = 0 then NaN else if 0 < b then NegInf else PosInf)"
| "fmul PosInf PosInf = PosInf"
| "fmul NegInf NegInf = PosInf"
| "fmul _ _ = NegInf"

text \<open>The floats of a column, if every cell is one.\<close>

fun numeric :: "cell list \<Rightarrow> pyfloat list option" where
  "numeric [] = Some []"
| "numeric (Str s # cs) = None"
| "numeric (Num x # cs) = map_option ((#) x) (numeric cs)"

text \<open>\<^verbatim>\<open>Series.ffill()\<close>: a missing value takes the last value before it that is not missing.\<close>

fun ffill :: "pyfloat \<Rightarrow> pyfloat list \<Rightarrow> pyfloat list" where
  "ffill prev [] = []"
| "ffill prev (x # xs) = (if x = NaN then prev # ffill prev xs else x # ffill x xs)"

text \<open>\<^verbatim>\<open>Series.shift(1)\<close>: every value one row down, the first row missing.\<close>

definition shift1 :: "pyfloat list \<Rightarrow> pyfloat list" where
  "shift1 xs = (if xs = [] then [] else NaN # butlast xs)"

text \<open>
  \<^verbatim>\<open>Series.pct_change()\<close> is \<^verbatim>\<open>data / data.shift(1) - 1\<close>. With the default arguments
  pandas before 3.0 takes \<^verbatim>\<open>data = self.ffill()\<close>, pandas 3.0 takes \<^verbatim>\<open>data = self\<close>:
  \<open>pad\<close> says which. On a column with a string cell the division raises \<open>TypeError\<close>.
\<close>

definition pct_change :: "bool \<Rightarrow> pyfloat list \<Rightarrow> pyfloat list" where
  "pct_change pad xs =
     (let data = (if pad then ffill NaN xs else xs)
      in map2 (\<lambda>a b. fsub (fdiv a b) (Fin 1)) data (shift1 data))"

definition series_pct_change :: "bool \<Rightarrow> cell list \<Rightarrow> exn + pyfloat list" where
  "series_pct_change pad cs =
     (case numeric cs of
        None \<Rightarrow> Inl (Exn TypeError ''unsupported operand type(s) for /'')
      | Some xs \<Rightarrow> Inr (pct_change pad xs))"

text \<open>\<^verbatim>\<open>series * k\<close> and \<^verbatim>\<open>series.fillna(v)\<close>\<close>

definition series_mul :: "pyfloat list \<Rightarrow> pyfloat \<Rightarrow> pyfloat list" where
  "series_mul xs k = map (\<lambda>x. fmul x k) xs"

definition fillna :: "pyfloat \<Rightarrow> cell list \<Rightarrow> cell list" where
  "fillna v cs = map (\<lambda>c. if c = Num NaN then Num v else c) cs"

section \<open>Reading and writing columns\<close>

text \<open>\<^verbatim>\<open>repr\<close> of a string without quotes, backslashes or control characters.\<close>

definition repr :: "string \<Rightarrow> string" where
  "repr s = [CHR 0x27] @ s @ [CHR 0x27]"

text \<open>\<^verbatim>\<open>df[name]\<close>\<close>

definition getitem :: "dataframe \<Rightarrow> string \<Rightarrow> exn + cell list" where
  "getitem df name =
     (case map_of (cols df) name of
        None \<Rightarrow> Inl (Exn KeyError (repr name))
      | Some cs \<Rightarrow> Inr cs)"

text \<open>
  \<^verbatim>\<open>df[name] = series\<close> changes the table: an existing column is replaced where it stands,
  a new one is added after the last. The result is the table after the assignment.
\<close>

definition setitem :: "dataframe \<Rightarrow> string \<Rightarrow> cell list \<Rightarrow> dataframe" where
  "setitem df name cs =
     (if name \<in> set (column_names df)
      then df\<lparr>cols := map (\<lambda>c. if fst c = name then (name, cs) else c) (cols df)\<rparr>
      else df\<lparr>cols := cols df @ [(name, cs)]\<rparr>)"

text \<open>\<^verbatim>\<open>df[name] = v\<close> for a scalar: the value in every row.\<close>

definition setitem_scalar :: "dataframe \<Rightarrow> string \<Rightarrow> cell \<Rightarrow> dataframe" where
  "setitem_scalar df name v = setitem df name (replicate (nrows df) v)"

text \<open>\<^verbatim>\<open>df[names]\<close>: a new table of the named columns in the order asked for.\<close>

definition getitem_list :: "dataframe \<Rightarrow> string list \<Rightarrow> exn + dataframe" where
  "getitem_list df names =
     (case filter (\<lambda>n. n \<notin> set (column_names df)) names of
        [] \<Rightarrow> Inr \<lparr>nrows = nrows df, cols = map (\<lambda>n. (n, the (map_of (cols df) n))) names\<rparr>
      | n # _ \<Rightarrow> Inl (Exn KeyError (repr n)))"

section \<open>Normalizer\<close>

text \<open>
  \<^verbatim>\<open>_normalize_data\<close> assigns to columns of the table it is given, which is the caller's
  object. Every function here therefore returns the table as the call leaves it, next to
  its own outcome.

  The block \<^verbatim>\<open>if 'pct_chg' not in df.columns\<close>: two assignments to the column. Reading
  \<^verbatim>\<open>df['close']\<close> and the division can raise; they come before the first assignment.
\<close>

definition add_pct_chg :: "bool \<Rightarrow> dataframe \<Rightarrow> dataframe \<times> exn option" where
  "add_pct_chg pad df =
    (if ''pct_chg'' \<notin> set (column_names df) then
       (case getitem df ''close'' of Inl e \<Rightarrow> (df, Some e) | Inr close \<Rightarrow>
        case series_pct_change pad close of Inl e \<Rightarrow> (df, Some e) | Inr pct \<Rightarrow>
        let df1 = setitem df ''pct_chg'' (map Num (series_mul pct (Fin 100))) in
        case getitem df1 ''pct_chg'' of Inl e \<Rightarrow> (df1, Some e) | Inr p \<Rightarrow>
          (setitem df1 ''pct_chg'' (fillna (Fin 0) p), None))
     else (df, None))"

text \<open>One turn of the loop \<^verbatim>\<open>for col in STANDARD_COLUMNS\<close>.\<close>

definition ensure_column :: "string \<Rightarrow> dataframe \<Rightarrow> dataframe" where
  "ensure_column col df =
     (if col \<notin> set (column_names df) then setitem_scalar df col (Num (Fin 0)) else df)"

text \<open>
  \<open>standard_columns\<close> is the list \<^verbatim>\<open>STANDARD_COLUMNS\<close> that the module imports. The result
  is the caller's table after the call and what the call returns or raises.
\<close>

definition normalize_data ::
  "bool \<Rightarrow> string list \<Rightarrow> dataframe \<Rightarrow> string \<Rightarrow> dataframe \<times> (exn + dataframe)" where
  "normalize_data pad standard_columns df stock_code =
    (if df_empty df then (df, Inr (DataFrame_columns standard_columns))
     else
       (case add_pct_chg pad df of
          (df1, Some e) \<Rightarrow> (df1, Inl e)
        | (df1, None) \<Rightarrow>
            (let df2 = fold ensure_column standard_columns df1
             in (df2, getitem_list df2 standard_columns))))"

text \<open>
  Modelled from the spec: \<^verbatim>\<open>STANDARD_COLUMNS\<close> is defined in \<^verbatim>\<open>data_provider/base.py\<close>, which
  is not among the sources. The specification describes the standard row as the raw candle
  record (date, open, high, low, close, volume, amount) plus the derived percentage change.
\<close>

definition STANDARD_COLUMNS :: "string list" where
  "STANDARD_COLUMNS =
     [''date'', ''open'', ''high'', ''low'', ''close'', ''volume'', ''amount'', ''pct_chg'']"

text \<open>The columns of a table built by the raw retriever from one or more candles.\<close>

definition raw_columns :: "string list" where
  "raw_columns = [''date'', ''open'', ''high'', ''low'', ''close'', ''volume'', ''amount'']"

text \<open>The formula of the specification for the percentage change of a row.\<close>

definition pct_formula :: "pyfloat \<Rightarrow> pyfloat \<Rightarrow> pyfloat" where
  "pct_formula close_t close_prev = fmul (fsub (fdiv close_t close_prev) (Fin 1)) (Fin 100)"

text \<open>A table has the named column and every cell of it is a float.\<close>

definition numeric_column :: "dataframe \<Rightarrow> string \<Rightarrow> bool" where
  "numeric_column df name =
     (case getitem df name of Inl e \<Rightarrow> False | Inr cs \<Rightarrow> numeric cs \<noteq> None)"

text \<open>
  The names that the loop over a list of columns adds to a table with the given column
  names, in the order in which it adds them: those not yet there, each once.
\<close>

fun new_columns :: "string list \<Rightarrow> string list \<Rightarrow> string list" where
  "new_columns names [] = []"
| "new_columns names (c # cs) =
     (if c \<in> set names then new_columns names cs else c # new_columns (names @ [c]) cs)"

section \<open>The date parser of the library\<close>

text \<open>
  The retriever is stated for any behaviour of \<^verbatim>\<open>datetime.strptime(s, "%Y-%m-%d").date()\<close>.
  For running it on concrete dates, \<open>strptime_ymd\<close> follows the library on ASCII input:
  \<^verbatim>\<open>%Y\<close> is four digits, \<^verbatim>\<open>%m\<close> is \<^verbatim>\<open>1[0-2]|0[1-9]|[1-9]\<close>, \<^verbatim>\<open>%d\<close> is
  \<^verbatim>\<open>3[01]|[12]\d|0[1-9]|[1-9]| [1-9]\<close>; text left over, the year 0 and a day beyond the end
  of the month raise \<open>ValueError\<close>. After the month a hyphen must follow, so the first
  alternative that matches is the only one that can lead to a match.
\<close>

definition number :: "string \<Rightarrow> nat" where
  "number s = foldl (\<lambda>n c. 10 * n + (of_char c - 48)) 0 s"

definition match_Y :: "string \<Rightarrow> (nat \<times> string) option" where
  "match_Y s =
     (if 4 \<le> length s \<and> list_all (\<lambda>c. c \<in> set digits) (take 4 s)
      then Some (number (take 4 s), drop 4 s) else None)"

definition match_m :: "string \<Rightarrow> (nat \<times> string) option" where
  "match_m s =
     (if 2 \<le> length s \<and> s ! 0 = CHR ''1'' \<and> s ! 1 \<in> set ''012''
        then Some (number (take 2 s), drop 2 s)
      else if 2 \<le> length s \<and> s ! 0 = CHR ''0'' \<and> s ! 1 \<in> set ''123456789''
        then Some (number (take 2 s), drop 2 s)
      else if 1 \<le> length s \<and> s ! 0 \<in> set ''123456789''
        then Some (number (take 1 s), drop 1 s)
      else None)"

definition match_d :: "string \<Rightarrow> (nat \<times> string) option" where
  "match_d s =
     (if 2 \<le> length s \<and> s ! 0 = CHR ''3'' \<and> s ! 1 \<in> set ''01''
        then Some (number (take 2 s), drop 2 s)
      else if 2 \<le> length s \<and> s ! 0 \<in> set ''12'' \<and> s ! 1 \<in> set digits
        then Some (number (take 2 s), drop 2 s)
      else if 2 \<le> length s \<and> s ! 0 = CHR ''0'' \<and> s ! 1 \<in> set ''123456789''
        then Some (number (take 2 s), drop 2 s)
      else if 1 \<le> length s \<and> s ! 0 \<in> set ''123456789''
        then Some (number (take 1 s), drop 1 s)
      else if 2 \<le> length s \<and> s ! 0 = CHR '' '' \<and> s ! 1 \<in> set ''123456789''
        then Some (number [s ! 1], drop 2 s)
      else None)"

definition match_hyphen :: "string \<Rightarrow> string option" where
  "match_hyphen s = (case s of [] \<Rightarrow> None | c # r \<Rightarrow> if c = CHR ''-'' then Some r else None)"

definition match_Y_m_d :: "string \<Rightarrow> (nat \<times> nat \<times> nat \<times> string) option" where
  "match_Y_m_d s =
     (case match_Y s of None \<Rightarrow> None | Some (y, r1) \<Rightarrow>
      case match_hyphen r1 of None \<Rightarrow> None | Some r2 \<Rightarrow>
      case match_m r2 of None \<Rightarrow> None | Some (m, r3) \<Rightarrow>
      case match_hyphen r3 of None \<Rightarrow> None | Some r4 \<Rightarrow>
      case match_d r4 of None \<Rightarrow> None | Some (d, r5) \<Rightarrow> Some (y, m, d, r5))"

definition days_in_month :: "nat \<Rightarrow> nat \<Rightarrow> nat" where
  "days_in_month y m =
     (if m = 2 then (if y mod 4 = 0 \<and> (y mod 100 \<noteq> 0 \<or> y mod 400 = 0) then 29 else 28)
      else if m \<in> {4, 6, 9, 11} then 30 else 31)"

definition strptime_ymd :: "string \<Rightarrow> exn + date" where
  "strptime_ymd s =
     (case match_Y_m_d s of
        None \<Rightarrow>
          Inl (Exn ValueError (''time data '' @ repr s @ '' does not match format ''
                                 @ repr ''%Y-%m-%d''))
      | Some (y, m, d, rest) \<Rightarrow>
          if rest \<noteq> [] then Inl (Exn ValueError (''unconverted data remains: '' @ rest))
          else if y = 0 then Inl (Exn ValueError ''year 0 is out of range'')
          else if days_in_month y m < d then Inl (Exn ValueError ''day is out of range for month'')
          else Inr \<lparr>year = y, month = m, day = d\<rparr>)"

section \<open>Example inputs\<close>

text \<open>Three providers: one with no candles in any range, one that fails, one interrupted.\<close>

definition ctx_no_candles :: quote_context where
  "ctx_no_candles symbol p a start end' = Inr []"

definition ctx_refused :: quote_context where
  "ctx_refused symbol p a start end' =
     Inl (Exn (LibraryError ''OpenApiException'') ''connection refused'')"

definition ctx_interrupted :: quote_context where
  "ctx_interrupted symbol p a start end' = Inl (Exn KeyboardInterrupt [])"

text \<open>A candle, one whose volume cannot be converted, and providers that answer with them.\<close>

definition candle_good :: candle where
  "candle_good =
     \<lparr>time_strftime = Inr ''2024-01-02'', open_float = Inr (Fin 10), high_float = Inr (Fin 12),
      low_float = Inr (Fin 9), close_float = Inr (Fin 11), volume_float = Inr (Fin 1000),
      turnover_float = Inr (Fin 11000)\<rparr>"

definition candle_bad_volume :: candle where
  "candle_bad_volume =
     candle_good\<lparr>volume_float := Inl (Exn TypeError ''float() argument must be a string or a real number'')\<rparr>"

definition ctx_one_candle :: quote_context where
  "ctx_one_candle symbol p a start end' = Inr [candle_good]"

definition ctx_bad_candle :: quote_context where
  "ctx_bad_candle symbol p a start end' = Inr [candle_good, candle_bad_volume]"

text \<open>Tables: without a close, with two closes, with closes that are zero.\<close>

definition table_date_only :: dataframe where
  "table_date_only = \<lparr>nrows = 1, cols = [(''date'', [Str ''2024-01-02''])]\<rparr>"

definition table_two_closes :: dataframe where
  "table_two_closes =
     \<lparr>nrows = 2,
      cols = [(''date'', [Str ''2024-01-02'', Str ''2024-01-03'']),
              (''close'', [Num (Fin 10), Num (Fin 11)]),
              (''turnover'', [Num (Fin 7), Num (Fin 8)])]\<rparr>"

definition table_zero_closes :: dataframe where
  "table_zero_closes = \<lparr>nrows = 2, cols = [(''close'', [Num (Fin 0), Num (Fin 0)])]\<rparr>"

section \<open>Properties of the symbol translator\<close>

lemma split_not_Nil: "split sep s \<noteq> []"
  by (induction s) auto

lemma split_without_sep: "sep \<notin> set s \<Longrightarrow> split sep s = [s]"
  by (induction s) auto

lemma split_with_sep: "sep \<in> set s \<Longrightarrow> tl (split sep s) \<noteq> []"
  by (induction s) (auto simp: split_not_Nil)

lemma after_last_Cons:
  "after_last sep (c # cs) =
     (if sep \<in> set cs then after_last sep cs else if c = sep then cs else c # cs)"
  by (auto simp: after_last_def takeWhile_append)

text \<open>\<^verbatim>\<open>s.split(sep)[-1]\<close> is the part of \<open>s\<close> after the last separator.\<close>

lemma last_split: "last (split sep s) = after_last sep s"
proof (induction s)
  case Nil
  show ?case by (simp add: after_last_def)
next
  case (Cons c cs)
  show ?case
  proof (cases "sep \<in> set cs")
    case True
    then have "tl (split sep cs) \<noteq> []" by (rule split_with_sep)
    then have "last (split sep (c # cs)) = last (split sep cs)"
      by (cases "split sep cs") (auto simp: split_not_Nil)
    with True Cons show ?thesis by (simp add: after_last_Cons)
  next
    case False
    then show ?thesis by (simp add: split_without_sep after_last_Cons)
  qed
qed

text \<open>
  C5. For a trimmed code without the separator, the rules of the table apply in order
  and the first that matches decides: starts with 6 gives \<^verbatim>\<open>.SH\<close>; starts with 00 or 30
  gives \<^verbatim>\<open>.SZ\<close>; starts with 8 or 4 gives \<^verbatim>\<open>.BJ\<close>; starts with 0 and has length 5 gives
  \<^verbatim>\<open>.HK\<close>; all digits and length at most 5 gives \<^verbatim>\<open>.HK\<close>; all letters gives \<^verbatim>\<open>.US\<close>. The
  translator returns the trimmed code followed by that suffix.
\<close>

theorem prefix_rules_first_match:
  assumes "CHR ''.'' \<notin> set (strip code)"
    and "first_match (strip code) = Some suf"
  shows "convert_to_longport_symbol code = strip code @ suf"
  using assms
  by (auto simp: convert_to_longport_symbol_def convert_traced_def Let_def
        first_match_def prefix_rules_def split: if_splits)

theorem prefix_rules_first_match_witness:
  "(CHR ''.'' \<notin> set (strip ''600519'') \<and> first_match (strip ''600519'') = Some ''.SH''
      \<and> convert_to_longport_symbol ''600519'' = ''600519.SH'')
   \<and> (CHR ''.'' \<notin> set (strip ''000001'') \<and> first_match (strip ''000001'') = Some ''.SZ''
      \<and> convert_to_longport_symbol ''000001'' = ''000001.SZ'')
   \<and> (CHR ''.'' \<notin> set (strip ''430047'') \<and> first_match (strip ''430047'') = Some ''.BJ''
      \<and> convert_to_longport_symbol ''430047'' = ''430047.BJ'')
   \<and> (CHR ''.'' \<notin> set (strip ''09988'') \<and> first_match (strip ''09988'') = Some ''.HK''
      \<and> convert_to_longport_symbol ''09988'' = ''09988.HK'')
   \<and> (CHR ''.'' \<notin> set (strip '' 700 '') \<and> first_match (strip '' 700 '') = Some ''.HK''
      \<and> convert_to_longport_symbol '' 700 '' = ''700.HK'')
   \<and> (CHR ''.'' \<notin> set (strip ''AAPL'') \<and> first_match (strip ''AAPL'') = Some ''.US''
      \<and> convert_to_longport_symbol ''AAPL'' = ''AAPL.US'')"
proof -
  have s: "strip ''600519'' = ''600519''" "strip ''000001'' = ''000001''"
    "strip ''430047'' = ''430047''" "strip ''09988'' = ''09988''"
    "strip '' 700 '' = ''700''" "strip ''AAPL'' = ''AAPL''"
    by (simp_all add: strip_def is_space_def whitespace_def)
  have f: "first_match ''600519'' = Some ''.SH''" "first_match ''000001'' = Some ''.SZ''"
    "first_match ''430047'' = Some ''.BJ''" "first_match ''09988'' = Some ''.HK''"
    "first_match ''700'' = Some ''.HK''" "first_match ''AAPL'' = Some ''.US''"
    by (simp_all add: first_match_def prefix_rules_def startswith_def isdigit_def isalpha_def
          digits_def ascii_lowercase_def ascii_uppercase_def)
  show ?thesis
    using prefix_rules_first_match [of "''600519''" "''.SH''"]
      prefix_rules_first_match [of "''000001''" "''.SZ''"]
      prefix_rules_first_match [of "''430047''" "''.BJ''"]
      prefix_rules_first_match [of "''09988''" "''.HK''"]
      prefix_rules_first_match [of "'' 700 ''" "''.HK''"]
      prefix_rules_first_match [of "''AAPL''" "''.US''"]
    by (simp add: s f)
qed

text \<open>
  C6. For a trimmed code that contains the separator, the part after the last separator
  is put in upper case; if it is then one of SH, SZ, HK, US the whole trimmed code is
  returned in upper case, otherwise the trimmed code is returned as it is.
\<close>

theorem separator_suffix:
  assumes "CHR ''.'' \<in> set (strip code)"
  shows "convert_to_longport_symbol code =
    (if upper (after_last (CHR ''.'') (strip code)) \<in> {''SH'', ''SZ'', ''HK'', ''US''}
     then upper (strip code) else strip code)"
  using assms
  by (simp add: convert_to_longport_symbol_def convert_traced_def Let_def last_split)

theorem separator_suffix_witness:
  "(CHR ''.'' \<in> set (strip '' 700.hk '') \<and> convert_to_longport_symbol '' 700.hk '' = ''700.HK'')
   \<and> (CHR ''.'' \<in> set (strip ''abc.XX'') \<and> convert_to_longport_symbol ''abc.XX'' = ''abc.XX'')"
proof -
  have s: "strip '' 700.hk '' = ''700.hk''" "strip ''abc.XX'' = ''abc.XX''"
    by (simp_all add: strip_def is_space_def whitespace_def)
  have u: "upper ''hk'' = ''HK''" "upper ''700.hk'' = ''700.HK''" "upper ''XX'' = ''XX''"
    by (simp_all add: upper_def upper_char_def ascii_lowercase_def ascii_uppercase_def)
  have a: "after_last (CHR ''.'') ''700.hk'' = ''hk''" "after_last (CHR ''.'') ''abc.XX'' = ''XX''"
    by (simp_all add: after_last_def)
  show ?thesis
    using separator_suffix [of "'' 700.hk ''"] separator_suffix [of "''abc.XX''"]
    by (simp add: s u a)
qed

text \<open>
  C7. The \<^verbatim>\<open>.SH\<close> arm of the last line is never taken. Whenever the last line is reached,
  the trimmed code does not start with 6 and the result is the trimmed code followed by
  \<^verbatim>\<open>.SZ\<close>.
\<close>

theorem fallback_sh_unreachable:
  "fst (convert_traced code) \<noteq> FallbackSH
   \<and> (fst (convert_traced code) = FallbackSZ \<longrightarrow>
        \<not> startswith (strip code) ''6''
        \<and> convert_to_longport_symbol code = strip code @ ''.SZ'')"
  by (simp add: convert_to_longport_symbol_def convert_traced_def Let_def)

theorem fallback_sh_unreachable_witness:
  "fst (convert_traced ''123456'') = FallbackSZ
   \<and> \<not> startswith (strip ''123456'') ''6''
   \<and> convert_to_longport_symbol ''123456'' = ''123456.SZ''"
proof -
  have s: "strip ''123456'' = ''123456''"
    by (simp add: strip_def is_space_def whitespace_def)
  have t: "fst (convert_traced ''123456'') = FallbackSZ"
    by (simp add: convert_traced_def s startswith_def isdigit_def isalpha_def
          digits_def ascii_lowercase_def ascii_uppercase_def)
  show ?thesis
    using fallback_sh_unreachable [of "''123456''"] t by (simp add: s)
qed

section \<open>Properties of the raw retriever\<close>

text \<open>
  C1. With the client handle unset the retriever raises \<open>DataFetchError\<close> with the ``not
  initialized'' message, whatever the code and the date strings are and whatever the date
  parser would do with them; nothing is logged and no network call is made.
\<close>

theorem unset_handle_raises:
  "fetch_raw_data strptime None stock_code start_date end_date =
     ([], Inl (Exn DataFetchError ''LongPort context not initialized or credentials missing''))"
  by (simp add: fetch_raw_data_def)

text \<open>The \<^verbatim>\<open>try\<close> block raises from one of four places: either date, the network call, a candle.\<close>

lemma fetch_try_raises_iff:
  "snd (fetch_try strptime c symbol start_date end_date) = Inl e \<longleftrightarrow>
     strptime start_date = Inl e
     \<or> (\<exists>start. strptime start_date = Inr start \<and> strptime end_date = Inl e)
     \<or> (\<exists>start end'. strptime start_date = Inr start \<and> strptime end_date = Inr end'
           \<and> c symbol Day ForwardAdjust start end' = Inl e)
     \<or> (\<exists>start end' candlesticks. strptime start_date = Inr start \<and> strptime end_date = Inr end'
           \<and> c symbol Day ForwardAdjust start end' = Inr candlesticks
           \<and> candle_rows candlesticks [] = Inl e)"
  by (auto simp: fetch_try_def Let_def split: sum.splits)

text \<open>Whatever the retriever raises is a \<open>DataFetchError\<close> or not an \<^verbatim>\<open>Exception\<close> at all.\<close>

lemma raises_fetch_error_or_base:
  "snd (fetch_raw_data strptime ctx stock_code start_date end_date) = Inl e
     \<Longrightarrow> cls e = DataFetchError \<or> \<not> is_Exception (cls e)"
  by (auto simp: fetch_raw_data_def Let_def split: option.splits prod.splits sum.splits if_splits)

lemma symbol_600519: "convert_to_longport_symbol ''600519'' = ''600519.SH''"
  by code_simp

lemma strptime_ymd_start:
  "strptime_ymd ''2024-03-04'' = Inr \<lparr>year = 2024, month = 3, day = 4\<rparr>"
  by code_simp

lemma strptime_ymd_end:
  "strptime_ymd ''2024-03-29'' = Inr \<lparr>year = 2024, month = 3, day = 29\<rparr>"
  by code_simp

lemma strptime_ymd_slashes:
  "strptime_ymd ''2024/03/04'' =
     Inl (Exn ValueError (''time data '' @ repr ''2024/03/04'' @ '' does not match format ''
                            @ repr ''%Y-%m-%d''))"
  by code_simp

text \<open>
  C3 as stated fails: an exception that is not an \<^verbatim>\<open>Exception\<close> is not caught. A provider
  call interrupted from the keyboard leaves the retriever as \<open>KeyboardInterrupt\<close>, with no
  log record.
\<close>

theorem interrupt_passes_through:
  "fetch_raw_data strptime_ymd (Some ctx_interrupted) ''600519'' ''2024-03-04'' ''2024-03-29'' =
     ([HistoryCandlesticksByDate ''600519.SH'' Day ForwardAdjust
         \<lparr>year = 2024, month = 3, day = 4\<rparr> \<lparr>year = 2024, month = 3, day = 29\<rparr>],
      Inl (Exn KeyboardInterrupt []))"
  by (simp add: fetch_raw_data_def fetch_try_def symbol_600519 strptime_ymd_start strptime_ymd_end ctx_interrupted_def)

text \<open>
  C3, amended. Every exception that derives from \<^verbatim>\<open>Exception\<close> and is raised in the
  \<^verbatim>\<open>try\<close> block (by the parsing of a date, by the network call or by the mapping of a
  candle) is logged and leaves the retriever as \<open>DataFetchError\<close>, its message the text
  \<^verbatim>\<open>LongPort fetch error: \<close> followed by the message of the cause.
\<close>

theorem exceptions_wrapped:
  assumes "snd (fetch_try strptime c (convert_to_longport_symbol stock_code) start_date end_date)
             = Inl e"
    and "is_Exception (cls e)"
  shows "snd (fetch_raw_data strptime (Some c) stock_code start_date end_date)
           = Inl (Exn DataFetchError (''LongPort fetch error: '' @ msg e))
         \<and> last (fst (fetch_raw_data strptime (Some c) stock_code start_date end_date))
           = Log ERROR (''Error fetching data from LongPort for ''
                          @ convert_to_longport_symbol stock_code @ '': '' @ msg e)"
  using assms
  by (cases "fetch_try strptime c (convert_to_longport_symbol stock_code) start_date end_date")
     (simp add: fetch_raw_data_def Let_def)

theorem exceptions_wrapped_witness:
  "snd (fetch_raw_data strptime_ymd (Some ctx_refused) ''600519'' ''2024-03-04'' ''2024-03-29'')
     = Inl (Exn DataFetchError ''LongPort fetch error: connection refused'')
   \<and> snd (fetch_raw_data strptime_ymd (Some ctx_bad_candle) ''600519'' ''2024-03-04'' ''2024-03-29'')
     = Inl (Exn DataFetchError
              ''LongPort fetch error: float() argument must be a string or a real number'')
   \<and> snd (fetch_raw_data strptime_ymd (Some ctx_one_candle) ''600519'' ''2024/03/04'' ''2024-03-29'')
     = Inl (Exn DataFetchError
              (''LongPort fetch error: time data '' @ repr ''2024/03/04''
                 @ '' does not match format '' @ repr ''%Y-%m-%d''))"
proof -
  have a: "snd (fetch_try strptime_ymd ctx_refused (convert_to_longport_symbol ''600519'')
             ''2024-03-04'' ''2024-03-29'')
           = Inl (Exn (LibraryError ''OpenApiException'') ''connection refused'')"
    by (simp add: fetch_try_def strptime_ymd_start strptime_ymd_end ctx_refused_def)
  have b: "snd (fetch_try strptime_ymd ctx_bad_candle (convert_to_longport_symbol ''600519'')
             ''2024-03-04'' ''2024-03-29'')
           = Inl (Exn TypeError ''float() argument must be a string or a real number'')"
    by (simp add: fetch_try_def strptime_ymd_start strptime_ymd_end ctx_bad_candle_def candle_row_def candle_good_def
          candle_bad_volume_def)
  have c: "snd (fetch_try strptime_ymd ctx_one_candle (convert_to_longport_symbol ''600519'')
             ''2024/03/04'' ''2024-03-29'')
           = Inl (Exn ValueError (''time data '' @ repr ''2024/03/04''
                 @ '' does not match format '' @ repr ''%Y-%m-%d''))"
    by (simp add: fetch_try_def strptime_ymd_slashes)
  show ?thesis
    using exceptions_wrapped [OF a] exceptions_wrapped [OF b] exceptions_wrapped [OF c]
    by simp
qed

text \<open>The table built from one or more candles has the seven raw columns, one row a candle.\<close>

lemma candle_row_keys: "candle_row c = Inr r \<Longrightarrow> map fst r = raw_columns"
  unfolding candle_row_def raw_columns_def
  by (simp split: sum.splits) auto

lemma candle_rows_keys:
  "candle_rows cs acc = Inr data \<Longrightarrow> \<forall>r\<in>set acc. map fst r = raw_columns
     \<Longrightarrow> (\<forall>r\<in>set data. map fst r = raw_columns) \<and> length data = length acc + length cs"
proof (induction cs arbitrary: acc)
  case Nil
  then show ?case by simp
next
  case (Cons c cs)
  from Cons.prems(1) obtain r where r: "candle_row c = Inr r"
    and rest: "candle_rows cs (acc @ [r]) = Inr data"
    by (cases "candle_row c") simp_all
  from r have "map fst r = raw_columns" by (rule candle_row_keys)
  with Cons.prems(2) have "\<forall>x\<in>set (acc @ [r]). map fst x = raw_columns" by simp
  from Cons.IH [OF rest this] show ?case by simp
qed

lemma raw_table_columns:
  assumes "candle_rows cs [] = Inr data" and "cs \<noteq> []"
  shows "column_names (DataFrame_rows data) = raw_columns \<and> nrows (DataFrame_rows data) = length cs"
proof -
  from candle_rows_keys [OF assms(1)]
  have k: "\<forall>r\<in>set data. map fst r = raw_columns" and l: "length data = length cs" by simp_all
  from l assms(2) have "data \<noteq> []" by auto
  then have "hd data \<in> set data" by simp
  with k have "map fst (hd data) = raw_columns" by blast
  then show ?thesis
    by (simp add: DataFrame_rows_def column_names_def comp_def l)
qed

text \<open>
  C8 as stated fails in its last word: the table returned when there are no candles is
  \<^verbatim>\<open>pd.DataFrame()\<close>, which has no columns at all, neither the seven of a table built from
  candles nor the standard ones.
\<close>

theorem no_candles_table_has_no_columns:
  "snd (fetch_raw_data strptime_ymd (Some ctx_no_candles) ''600519'' ''2024-03-04'' ''2024-03-29'')
     = Inr \<lparr>nrows = 0, cols = []\<rparr>
   \<and> column_names \<lparr>nrows = 0, cols = []\<rparr> \<noteq> raw_columns
   \<and> column_names \<lparr>nrows = 0, cols = []\<rparr> \<noteq> STANDARD_COLUMNS
   \<and> column_names
       (projr (snd (fetch_raw_data strptime_ymd (Some ctx_one_candle) ''600519''
                      ''2024-03-04'' ''2024-03-29''))) = raw_columns"
  by (simp add: fetch_raw_data_def fetch_try_def symbol_600519 strptime_ymd_start strptime_ymd_end ctx_no_candles_def ctx_one_candle_def
        DataFrame_empty_def DataFrame_columns_def column_names_def raw_columns_def
        STANDARD_COLUMNS_def candle_row_def candle_good_def DataFrame_rows_def)

text \<open>
  C8, amended. With the handle set, both dates parsed and no candles from the provider,
  the retriever does not raise: after the network call it logs one warning and returns
  the table with no rows and no columns.
\<close>

theorem no_candles_empty_table:
  assumes "strptime start_date = Inr start"
    and "strptime end_date = Inr end'"
    and "c (convert_to_longport_symbol stock_code) Day ForwardAdjust start end' = Inr []"
  shows "fetch_raw_data strptime (Some c) stock_code start_date end_date =
     ([HistoryCandlesticksByDate (convert_to_longport_symbol stock_code) Day ForwardAdjust start end',
       Log WARNING (''No data found for '' @ convert_to_longport_symbol stock_code
                      @ '' from '' @ date_str start @ '' to '' @ date_str end')],
      Inr \<lparr>nrows = 0, cols = []\<rparr>)"
  using assms
  by (simp add: fetch_raw_data_def fetch_try_def Let_def DataFrame_empty_def DataFrame_columns_def)

theorem no_candles_empty_table_witness:
  "fetch_raw_data strptime_ymd (Some ctx_no_candles) ''600519'' ''2024-03-04'' ''2024-03-29'' =
     ([HistoryCandlesticksByDate ''600519.SH'' Day ForwardAdjust
         \<lparr>year = 2024, month = 3, day = 4\<rparr> \<lparr>year = 2024, month = 3, day = 29\<rparr>,
       Log WARNING ''No data found for 600519.SH from 2024-03-04 to 2024-03-29''],
      Inr \<lparr>nrows = 0, cols = []\<rparr>)"
proof -
  have n: "ctx_no_candles (convert_to_longport_symbol ''600519'') Day ForwardAdjust
             \<lparr>year = 2024, month = 3, day = 4\<rparr> \<lparr>year = 2024, month = 3, day = 29\<rparr> = Inr []"
    by (simp add: ctx_no_candles_def)
  have s: "date_str \<lparr>year = 2024, month = 3, day = 4\<rparr> = ''2024-03-04''"
    "date_str \<lparr>year = 2024, month = 3, day = 29\<rparr> = ''2024-03-29''"
    by code_simp+
  show ?thesis
    using no_candles_empty_table [where strptime = strptime_ymd and c = ctx_no_candles
        and stock_code = "''600519''", OF strptime_ymd_start strptime_ymd_end n]
    by (simp add: symbol_600519 s)
qed

section \<open>Properties of the normalizer\<close>

lemma nrows_setitem: "nrows (setitem df n cs) = nrows df"
  by (simp add: setitem_def)

lemma map_replace_absent:
  "n \<notin> fst ` set xs \<Longrightarrow> map (\<lambda>c. if fst c = n then (n, cs) else c) xs = xs"
  by (induction xs) auto

lemma setitem_new:
  "n \<notin> set (column_names df) \<Longrightarrow> setitem df n cs = df\<lparr>cols := cols df @ [(n, cs)]\<rparr>"
  by (simp add: setitem_def)

lemma setitem_last:
  "n \<notin> set (column_names df) \<Longrightarrow>
     setitem (df\<lparr>cols := cols df @ [(n, cs)]\<rparr>) n cs' = df\<lparr>cols := cols df @ [(n, cs')]\<rparr>"
  by (simp add: setitem_def column_names_def map_replace_absent)

lemma getitem_last:
  "n \<notin> set (column_names df) \<Longrightarrow> getitem (df\<lparr>cols := cols df @ [(n, cs)]\<rparr>) n = Inr cs"
  by (simp add: getitem_def column_names_def map_add_def map_of_eq_None_iff [THEN iffD2])

lemma getitem_append_old:
  "n \<in> set (column_names df) \<Longrightarrow> getitem (df\<lparr>cols := cols df @ new\<rparr>) n = getitem df n"
  by (auto simp: getitem_def column_names_def map_add_def map_of_eq_None_iff split: option.splits)

lemma getitem_append_new:
  "n \<notin> set (column_names df) \<Longrightarrow>
     getitem (df\<lparr>cols := cols df @ new\<rparr>) n = getitem (df\<lparr>cols := new\<rparr>) n"
  by (simp add: getitem_def column_names_def map_add_def map_of_eq_None_iff [THEN iffD2])

text \<open>The block that computes the percentage change, when it succeeds.\<close>

lemma add_pct_chg_present:
  "''pct_chg'' \<in> set (column_names df) \<Longrightarrow> add_pct_chg pad df = (df, None)"
  by (simp add: add_pct_chg_def)

lemma add_pct_chg_computed:
  assumes "''pct_chg'' \<notin> set (column_names df)"
    and "getitem df ''close'' = Inr close" and "numeric close = Some xs"
  shows "add_pct_chg pad df =
     (df\<lparr>cols := cols df @
         [(''pct_chg'', fillna (Fin 0) (map Num (series_mul (pct_change pad xs) (Fin 100))))]\<rparr>,
      None)"
  using assms
  by (simp add: add_pct_chg_def series_pct_change_def Let_def setitem_new getitem_last
        setitem_last)

lemma add_pct_chg_no_close:
  assumes "''pct_chg'' \<notin> set (column_names df)" and "getitem df ''close'' = Inl e"
  shows "add_pct_chg pad df = (df, Some e)"
  using assms by (simp add: add_pct_chg_def)

text \<open>The loop over the standard columns.\<close>

lemma ensure_column_new:
  "c \<notin> set (column_names df) \<Longrightarrow>
     ensure_column c df = df\<lparr>cols := cols df @ [(c, replicate (nrows df) (Num (Fin 0)))]\<rparr>"
  by (simp add: ensure_column_def setitem_scalar_def setitem_new)

lemma ensure_column_old: "c \<in> set (column_names df) \<Longrightarrow> ensure_column c df = df"
  by (simp add: ensure_column_def)

lemma fold_ensure_column:
  "fold ensure_column std df =
     df\<lparr>cols := cols df @ map (\<lambda>c. (c, replicate (nrows df) (Num (Fin 0))))
                            (new_columns (column_names df) std)\<rparr>"
proof (induction std arbitrary: df)
  case Nil
  show ?case by simp
next
  case (Cons c std)
  show ?case
  proof (cases "c \<in> set (column_names df)")
    case True
    then show ?thesis by (simp add: Cons ensure_column_old)
  next
    case False
    then show ?thesis
      by (simp add: Cons ensure_column_new column_names_def)
  qed
qed

lemma set_new_columns: "set (new_columns names std) = set std - set names"
  by (induction names std rule: new_columns.induct) auto

lemma distinct_new_columns: "distinct (new_columns names std)"
  by (induction names std rule: new_columns.induct) (auto simp: set_new_columns)

lemma map_of_tabulate: "c \<in> set xs \<Longrightarrow> map_of (map (\<lambda>n. (n, f n)) xs) c = Some (f c)"
  by (induction xs) auto

lemma getitem_list_all_present:
  "set names \<subseteq> set (column_names df) \<Longrightarrow>
     getitem_list df names =
       Inr \<lparr>nrows = nrows df, cols = map (\<lambda>n. (n, the (map_of (cols df) n))) names\<rparr>"
proof -
  assume "set names \<subseteq> set (column_names df)"
  then have "filter (\<lambda>n. n \<notin> set (column_names df)) names = []"
    by (auto simp: filter_empty_conv)
  then show ?thesis by (simp add: getitem_list_def)
qed

lemma column_names_append:
  "column_names (df\<lparr>cols := cols df @ new\<rparr>) = column_names df @ map fst new"
  by (simp add: column_names_def)

lemma getitem_select:
  "c \<in> set std \<Longrightarrow> getitem d c = Inr v \<Longrightarrow>
     getitem \<lparr>nrows = n, cols = map (\<lambda>n. (n, the (map_of (cols d) n))) std\<rparr> c = Inr v"
  by (auto simp: getitem_def map_of_tabulate split: option.splits)

lemma normalize_data_empty:
  "df_empty df \<Longrightarrow> normalize_data pad std df code = (df, Inr (DataFrame_columns std))"
  by (simp add: normalize_data_def)

text \<open>
  What the normalizer does to a table that is not empty when the percentage block
  succeeds with the columns \<open>pc\<close> added (none, or the percentage change).
\<close>

lemma normalize_data_adds:
  assumes "\<not> df_empty df" and "add_pct_chg pad df = (df\<lparr>cols := cols df @ pc\<rparr>, None)"
  shows "normalize_data pad std df code =
     (df\<lparr>cols := cols df @ pc @ map (\<lambda>c. (c, replicate (nrows df) (Num (Fin 0))))
                                  (new_columns (column_names df @ map fst pc) std)\<rparr>,
      getitem_list
        (df\<lparr>cols := cols df @ pc @ map (\<lambda>c. (c, replicate (nrows df) (Num (Fin 0))))
                                  (new_columns (column_names df @ map fst pc) std)\<rparr>) std)"
  using assms
  by (simp add: normalize_data_def Let_def fold_ensure_column column_names_append)

lemma all_present_after_loop:
  "set std \<subseteq> set (column_names (df\<lparr>cols := cols df @ pc @ map f (new_columns (column_names df @ map fst pc) std)\<rparr>))"
  if "\<And>c. fst (f c) = c"
  using that by (auto simp: column_names_def set_new_columns comp_def image_iff)

lemma getitem_present:
  "c \<in> set (column_names df) \<Longrightarrow> \<exists>v. getitem df c = Inr v"
  by (auto simp: getitem_def column_names_def map_of_eq_None_iff split: option.splits)

lemma getitem_zero_column:
  assumes "c \<in> set std" and "c \<notin> set (column_names df)" and "c \<notin> fst ` set pc"
  shows "getitem (df\<lparr>cols := cols df @ pc @ map (\<lambda>c. (c, z)) (new_columns (column_names df @ map fst pc) std)\<rparr>) c
           = Inr z"
proof -
  from assms have "c \<in> set (new_columns (column_names df @ map fst pc) std)"
    by (auto simp: set_new_columns)
  then have "map_of (map (\<lambda>c. (c, z)) (new_columns (column_names df @ map fst pc) std)) c = Some z"
    by (rule map_of_tabulate)
  moreover from assms(3) have "map_of pc c = None"
    by (simp add: map_of_eq_None_iff)
  moreover from assms(2) have "map_of (cols df) c = None"
    by (simp add: map_of_eq_None_iff column_names_def)
  ultimately show ?thesis
    by (simp add: getitem_def map_add_def)
qed

text \<open>The percentage block succeeds when the column is there or the closes are numeric.\<close>

lemma numeric_columnD:
  assumes "numeric_column df name"
  shows "\<exists>cs xs. getitem df name = Inr cs \<and> numeric cs = Some xs"
proof (cases "getitem df name")
  case (Inl e)
  with assms show ?thesis by (simp add: numeric_column_def)
next
  case (Inr cs)
  with assms have "numeric cs \<noteq> None" by (simp add: numeric_column_def)
  then obtain xs where "numeric cs = Some xs" by (cases "numeric cs") simp_all
  with Inr show ?thesis by simp
qed

lemma add_pct_chg_succeeds:
  assumes "''pct_chg'' \<in> set (column_names df) \<or> numeric_column df ''close''"
  shows "\<exists>pc. add_pct_chg pad df = (df\<lparr>cols := cols df @ pc\<rparr>, None)
            \<and> map fst pc = (if ''pct_chg'' \<in> set (column_names df) then [] else [''pct_chg''])"
proof (cases "''pct_chg'' \<in> set (column_names df)")
  case True
  then have F: "add_pct_chg pad df = (df\<lparr>cols := cols df @ []\<rparr>, None)
      \<and> map fst ([] :: (string \<times> cell list) list)
          = (if ''pct_chg'' \<in> set (column_names df) then [] else [''pct_chg''])"
    by (simp add: add_pct_chg_present)
  show ?thesis by (rule exI [of _ "[]"]) (rule F)
next
  case False
  with assms have "numeric_column df ''close''" by simp
  then obtain close xs where c: "getitem df ''close'' = Inr close" and x: "numeric close = Some xs"
    using numeric_columnD by blast
  from add_pct_chg_computed [OF False c x, of pad]
  obtain v where "add_pct_chg pad df = (df\<lparr>cols := cols df @ [(''pct_chg'', v)]\<rparr>, None)"
    by (rule that)
  with False have F: "add_pct_chg pad df = (df\<lparr>cols := cols df @ [(''pct_chg'', v)]\<rparr>, None)
      \<and> map fst [(''pct_chg'', v)]
          = (if ''pct_chg'' \<in> set (column_names df) then [] else [''pct_chg''])"
    by simp
  show ?thesis by (rule exI [of _ "[(''pct_chg'', v)]"]) (rule F)
qed

text \<open>
  The normalizer on a table that is not empty, when the percentage block succeeds with
  the columns \<open>pc\<close> added: the caller's table gets \<open>pc\<close> and the zero columns, the
  result is the selection of the standard columns from it.
\<close>

lemma normalize_data_result:
  assumes "\<not> df_empty df" and "add_pct_chg pad df = (df\<lparr>cols := cols df @ pc\<rparr>, None)"
    and "D = df\<lparr>cols := cols df @ pc @ map (\<lambda>c. (c, replicate (nrows df) (Num (Fin 0))))
                                  (new_columns (column_names df @ map fst pc) std)\<rparr>"
  shows "normalize_data pad std df code =
     (D, Inr \<lparr>nrows = nrows df, cols = map (\<lambda>n. (n, the (map_of (cols D) n))) std\<rparr>)"
proof -
  have "set std \<subseteq> set (column_names D)"
    unfolding assms(3) by (rule all_present_after_loop) simp
  then have "getitem_list D std =
      Inr \<lparr>nrows = nrows df, cols = map (\<lambda>n. (n, the (map_of (cols D) n))) std\<rparr>"
    by (simp add: getitem_list_all_present assms(3))
  with normalize_data_adds [OF assms(1,2), of std code] show ?thesis
    by (simp add: assms(3))
qed

text \<open>
  C2 as stated fails. A table with rows but neither a \<^verbatim>\<open>close\<close> nor a \<^verbatim>\<open>pct_chg\<close> column makes
  the normalizer raise \<open>KeyError\<close>, so not every input gives a table; and a \<^verbatim>\<open>pct_chg\<close>
  column that is absent is computed from the closes, not filled with 0.0.
\<close>

theorem normalize_without_close_raises:
  "\<not> df_empty table_date_only
   \<and> snd (normalize_data False STANDARD_COLUMNS table_date_only ''600519'')
       = Inl (Exn KeyError (repr ''close''))
   \<and> snd (normalize_data True STANDARD_COLUMNS table_date_only ''600519'')
       = Inl (Exn KeyError (repr ''close''))
   \<and> ''pct_chg'' \<in> set STANDARD_COLUMNS
   \<and> ''pct_chg'' \<notin> set (column_names table_two_closes)
   \<and> getitem (projr (snd (normalize_data False STANDARD_COLUMNS table_two_closes ''600519'')))
        ''pct_chg'' = Inr [Num (Fin 0), Num (Fin 10)]"
  by code_simp

text \<open>
  C2, amended. For a table that is empty, or has a \<^verbatim>\<open>pct_chg\<close> column, or has a numeric
  \<^verbatim>\<open>close\<close> column, the normalizer returns a table whose columns are exactly the standard
  ones in their order. An empty input gives no rows. Otherwise the rows are those of the
  input, every standard column other than \<^verbatim>\<open>pct_chg\<close> that the input lacks holds 0.0 in
  every row, and every standard column that the input has is taken over as it is.
\<close>

theorem normalize_standard_columns:
  assumes "df_empty df \<or> ''pct_chg'' \<in> set (column_names df) \<or> numeric_column df ''close''"
  shows "\<exists>r. snd (normalize_data pad std df stock_code) = Inr r
            \<and> column_names r = std
            \<and> (df_empty df \<longrightarrow> nrows r = 0 \<and> cols r = map (\<lambda>c. (c, [])) std)
            \<and> (\<not> df_empty df \<longrightarrow>
                 nrows r = nrows df
                 \<and> (\<forall>c\<in>set std. c \<notin> set (column_names df) \<and> c \<noteq> ''pct_chg'' \<longrightarrow>
                       getitem r c = Inr (replicate (nrows df) (Num (Fin 0))))
                 \<and> (\<forall>c\<in>set std. c \<in> set (column_names df) \<longrightarrow> getitem r c = getitem df c))"
proof (cases "df_empty df")
  case True
  then have "snd (normalize_data pad std df stock_code) = Inr (DataFrame_columns std)"
    by (simp add: normalize_data_empty)
  moreover have "column_names (DataFrame_columns std) = std"
    by (simp add: DataFrame_columns_def column_names_def comp_def)
  moreover have "nrows (DataFrame_columns std) = 0"
    "cols (DataFrame_columns std) = map (\<lambda>c. (c, [])) std"
    by (simp_all add: DataFrame_columns_def)
  ultimately have F: "snd (normalize_data pad std df stock_code) = Inr (DataFrame_columns std)
      \<and> column_names (DataFrame_columns std) = std
      \<and> (df_empty df \<longrightarrow> nrows (DataFrame_columns std) = 0
             \<and> cols (DataFrame_columns std) = map (\<lambda>c. (c, [])) std)
      \<and> (\<not> df_empty df \<longrightarrow>
             nrows (DataFrame_columns std) = nrows df
             \<and> (\<forall>c\<in>set std. c \<notin> set (column_names df) \<and> c \<noteq> ''pct_chg'' \<longrightarrow>
                   getitem (DataFrame_columns std) c = Inr (replicate (nrows df) (Num (Fin 0))))
             \<and> (\<forall>c\<in>set std. c \<in> set (column_names df) \<longrightarrow>
                   getitem (DataFrame_columns std) c = getitem df c))"
    using True by simp
  show ?thesis by (rule exI [of _ "DataFrame_columns std"]) (rule F)
next
  case False
  with assms have "''pct_chg'' \<in> set (column_names df) \<or> numeric_column df ''close''" by simp
  from add_pct_chg_succeeds [OF this, of pad]
  obtain pc where pc: "add_pct_chg pad df = (df\<lparr>cols := cols df @ pc\<rparr>, None)"
    and names_pc: "map fst pc = (if ''pct_chg'' \<in> set (column_names df) then [] else [''pct_chg''])"
    by blast
  have "set (map fst pc) \<subseteq> {''pct_chg''}"
    unfolding names_pc by simp
  then have only: "fst ` set pc \<subseteq> {''pct_chg''}" by simp
  define z where "z = replicate (nrows df) (Num (Fin 0))"
  define D where "D = df\<lparr>cols := cols df @ pc @ map (\<lambda>c. (c, z))
                                  (new_columns (column_names df @ map fst pc) std)\<rparr>"
  define r where "r = \<lparr>nrows = nrows df, cols = map (\<lambda>n. (n, the (map_of (cols D) n))) std\<rparr>"
  from normalize_data_result [OF False pc D_def [unfolded z_def], of stock_code]
  have res: "snd (normalize_data pad std df stock_code) = Inr r"
    by (simp add: r_def)
  have names: "column_names r = std"
    by (simp add: r_def column_names_def comp_def)
  have rows: "nrows r = nrows df"
    by (simp add: r_def)
  have zero: "getitem r c = Inr z"
    if "c \<in> set std" "c \<notin> set (column_names df)" "c \<noteq> ''pct_chg''" for c
  proof -
    from that(3) only have "c \<notin> fst ` set pc" by auto
    with that have "getitem D c = Inr z"
      unfolding D_def by (intro getitem_zero_column)
    with that(1) show ?thesis
      unfolding r_def by (rule getitem_select)
  qed
  have kept: "getitem r c = getitem df c" if "c \<in> set std" "c \<in> set (column_names df)" for c
  proof -
    from that(2) obtain v where v: "getitem df c = Inr v"
      using getitem_present by blast
    from that(2) have "getitem D c = getitem df c"
      unfolding D_def by (rule getitem_append_old)
    with v have "getitem D c = Inr v" by simp
    with that(1) have "getitem r c = Inr v"
      unfolding r_def by (rule getitem_select)
    with v show ?thesis by simp
  qed
  have F: "snd (normalize_data pad std df stock_code) = Inr r
            \<and> column_names r = std
            \<and> (df_empty df \<longrightarrow> nrows r = 0 \<and> cols r = map (\<lambda>c. (c, [])) std)
            \<and> (\<not> df_empty df \<longrightarrow>
                 nrows r = nrows df
                 \<and> (\<forall>c\<in>set std. c \<notin> set (column_names df) \<and> c \<noteq> ''pct_chg'' \<longrightarrow>
                       getitem r c = Inr (replicate (nrows df) (Num (Fin 0))))
                 \<and> (\<forall>c\<in>set std. c \<in> set (column_names df) \<longrightarrow> getitem r c = getitem df c))"
    using False res names rows zero kept unfolding z_def by simp
  show ?thesis by (rule exI [of _ r]) (rule F)
qed

theorem normalize_standard_columns_witness:
  "numeric_column table_two_closes ''close''
   \<and> column_names (projr (snd (normalize_data False STANDARD_COLUMNS table_two_closes ''600519'')))
       = STANDARD_COLUMNS
   \<and> nrows (projr (snd (normalize_data False STANDARD_COLUMNS table_two_closes ''600519''))) = 2
   \<and> getitem (projr (snd (normalize_data False STANDARD_COLUMNS table_two_closes ''600519'')))
       ''amount'' = Inr [Num (Fin 0), Num (Fin 0)]
   \<and> getitem (projr (snd (normalize_data False STANDARD_COLUMNS table_two_closes ''600519'')))
       ''close'' = Inr [Num (Fin 10), Num (Fin 11)]"
proof -
  have n: "numeric_column table_two_closes ''close''"
    by (simp add: numeric_column_def getitem_def table_two_closes_def)
  have e: "\<not> df_empty table_two_closes"
    by (simp add: df_empty_def table_two_closes_def)
  have m: "''amount'' \<in> set STANDARD_COLUMNS" "''amount'' \<notin> set (column_names table_two_closes)"
    "''close'' \<in> set STANDARD_COLUMNS" "''close'' \<in> set (column_names table_two_closes)"
    by (simp_all add: STANDARD_COLUMNS_def column_names_def table_two_closes_def)
  have g: "getitem table_two_closes ''close'' = Inr [Num (Fin 10), Num (Fin 11)]"
    "nrows table_two_closes = 2"
    by (simp_all add: getitem_def table_two_closes_def)
  from normalize_standard_columns [of table_two_closes False STANDARD_COLUMNS "''600519''"] n
  obtain r where r: "snd (normalize_data False STANDARD_COLUMNS table_two_closes ''600519'') = Inr r"
    and "column_names r = STANDARD_COLUMNS"
    and "\<not> df_empty table_two_closes \<longrightarrow>
           nrows r = nrows table_two_closes
           \<and> (\<forall>c\<in>set STANDARD_COLUMNS. c \<notin> set (column_names table_two_closes) \<and> c \<noteq> ''pct_chg''
                  \<longrightarrow> getitem r c = Inr (replicate (nrows table_two_closes) (Num (Fin 0))))
           \<and> (\<forall>c\<in>set STANDARD_COLUMNS. c \<in> set (column_names table_two_closes)
                  \<longrightarrow> getitem r c = getitem table_two_closes c)"
    by blast
  with e m g n show ?thesis
    by (simp add: numeral_2_eq_2)
qed

text \<open>The percentage change of a column of floats without missing values.\<close>

lemma numeric_Num: "numeric (map Num xs) = Some xs"
  by (induction xs) simp_all

lemma ffill_without_NaN: "NaN \<notin> set xs \<Longrightarrow> ffill prev xs = xs"
  by (induction xs arbitrary: prev) auto

lemma fdiv_by_NaN: "fdiv a NaN = NaN"
  by (cases a) simp_all

lemma shift1_nth:
  "t < length xs \<Longrightarrow> shift1 xs ! t = (if t = 0 then NaN else xs ! (t - 1))"
  by (cases t) (auto simp: shift1_def nth_butlast)

lemma length_shift1: "length (shift1 xs) = length xs"
  by (simp add: shift1_def)

lemma pct_change_nth:
  assumes "NaN \<notin> set xs" and "t < length xs"
  shows "pct_change pad xs ! t =
     (if t = 0 then NaN else fsub (fdiv (xs ! t) (xs ! (t - 1))) (Fin 1))"
proof -
  from assms(2) have "map2 (\<lambda>a b. fsub (fdiv a b) (Fin 1)) xs (shift1 xs) ! t
      = fsub (fdiv (xs ! t) (shift1 xs ! t)) (Fin 1)"
    by (simp add: length_shift1)
  also from assms(2) have "\<dots> = (if t = 0 then NaN else fsub (fdiv (xs ! t) (xs ! (t - 1))) (Fin 1))"
    by (simp add: shift1_nth fdiv_by_NaN)
  finally have row: "map2 (\<lambda>a b. fsub (fdiv a b) (Fin 1)) xs (shift1 xs) ! t
      = (if t = 0 then NaN else fsub (fdiv (xs ! t) (xs ! (t - 1))) (Fin 1))" .
  from assms(1) have "pct_change pad xs = map2 (\<lambda>a b. fsub (fdiv a b) (Fin 1)) xs (shift1 xs)"
    by (simp add: pct_change_def ffill_without_NaN)
  with row show ?thesis by (simp only:)
qed

lemma length_pct_change: "NaN \<notin> set xs \<Longrightarrow> length (pct_change pad xs) = length xs"
  by (simp add: pct_change_def ffill_without_NaN length_shift1)

lemma pct_column_nth:
  assumes "NaN \<notin> set xs" and "t < length xs"
  shows "fillna (Fin 0) (map Num (series_mul (pct_change pad xs) (Fin 100))) ! t =
     Num (if t = 0 then Fin 0
          else if pct_formula (xs ! t) (xs ! (t - 1)) = NaN then Fin 0
          else pct_formula (xs ! t) (xs ! (t - 1)))"
  using assms
  by (simp add: fillna_def series_mul_def length_pct_change pct_change_nth pct_formula_def)

text \<open>
  C4 as stated fails. \<^verbatim>\<open>fillna(0)\<close> fills every missing value of the new column, not only
  that of the first row: with two closes 0 the formula gives NaN for the second row and
  the normalizer stores 0 there.
\<close>

theorem pct_chg_zero_closes:
  "\<not> df_empty table_zero_closes
   \<and> ''pct_chg'' \<notin> set (column_names table_zero_closes)
   \<and> getitem table_zero_closes ''close'' = Inr [Num (Fin 0), Num (Fin 0)]
   \<and> pct_formula (Fin 0) (Fin 0) = NaN
   \<and> getitem (projr (snd (normalize_data False STANDARD_COLUMNS table_zero_closes ''600519'')))
        ''pct_chg'' = Inr [Num (Fin 0), Num (Fin 0)]
   \<and> getitem (projr (snd (normalize_data True STANDARD_COLUMNS table_zero_closes ''600519'')))
        ''pct_chg'' = Inr [Num (Fin 0), Num (Fin 0)]"
  by code_simp

text \<open>
  C4, amended. For a table that is not empty, has no \<^verbatim>\<open>pct_chg\<close> column and has a numeric
  \<^verbatim>\<open>close\<close> column without missing values, with \<^verbatim>\<open>pct_chg\<close> among the standard columns: the
  \<^verbatim>\<open>pct_chg\<close> column of the result has one value per close; it is 0 in the first row, and in
  every later row \<open>t\<close> it is \<open>(close[t] / close[t-1] - 1) * 100\<close>, or 0 where that value is
  NaN.
\<close>

theorem pct_chg_from_close:
  assumes "\<not> df_empty df"
    and "''pct_chg'' \<notin> set (column_names df)"
    and "getitem df ''close'' = Inr (map Num xs)"
    and "NaN \<notin> set xs"
    and "''pct_chg'' \<in> set std"
    and "t < length xs"
  shows "\<exists>r p. snd (normalize_data pad std df stock_code) = Inr r
            \<and> getitem r ''pct_chg'' = Inr p
            \<and> length p = length xs
            \<and> p ! t = Num (if t = 0 then Fin 0
                           else if pct_formula (xs ! t) (xs ! (t - 1)) = NaN then Fin 0
                           else pct_formula (xs ! t) (xs ! (t - 1)))"
proof -
  define p where "p = fillna (Fin 0) (map Num (series_mul (pct_change pad xs) (Fin 100)))"
  define D where "D = df\<lparr>cols := cols df @ [(''pct_chg'', p)]
                          @ map (\<lambda>c. (c, replicate (nrows df) (Num (Fin 0))))
                              (new_columns (column_names df @ map fst [(''pct_chg'', p)]) std)\<rparr>"
  define r where "r = \<lparr>nrows = nrows df, cols = map (\<lambda>n. (n, the (map_of (cols D) n))) std\<rparr>"
  from add_pct_chg_computed [OF assms(2,3) numeric_Num, of pad]
  have a: "add_pct_chg pad df = (df\<lparr>cols := cols df @ [(''pct_chg'', p)]\<rparr>, None)"
    by (simp add: p_def)
  from normalize_data_result [OF assms(1) a D_def, of stock_code]
  have res: "snd (normalize_data pad std df stock_code) = Inr r"
    by (simp add: r_def)
  from assms(2) have "map_of (cols df) ''pct_chg'' = None"
    by (simp add: map_of_eq_None_iff column_names_def)
  then have "getitem D ''pct_chg'' = Inr p"
    by (simp add: D_def getitem_def map_add_def)
  with assms(5) have col: "getitem r ''pct_chg'' = Inr p"
    unfolding r_def by (rule getitem_select)
  have len: "length p = length xs"
    by (simp add: p_def fillna_def series_mul_def length_pct_change assms(4))
  have nth: "p ! t = Num (if t = 0 then Fin 0
                           else if pct_formula (xs ! t) (xs ! (t - 1)) = NaN then Fin 0
                           else pct_formula (xs ! t) (xs ! (t - 1)))"
    unfolding p_def using assms(4,6) by (rule pct_column_nth)
  have F: "snd (normalize_data pad std df stock_code) = Inr r
            \<and> getitem r ''pct_chg'' = Inr p
            \<and> length p = length xs
            \<and> p ! t = Num (if t = 0 then Fin 0
                           else if pct_formula (xs ! t) (xs ! (t - 1)) = NaN then Fin 0
                           else pct_formula (xs ! t) (xs ! (t - 1)))"
    using res col len nth by simp
  show ?thesis
    by (rule exI [of _ r], rule exI [of _ p]) (rule F)
qed

theorem pct_chg_from_close_witness:
  "\<not> df_empty table_two_closes
   \<and> ''pct_chg'' \<notin> set (column_names table_two_closes)
   \<and> getitem table_two_closes ''close'' = Inr (map Num [Fin 10, Fin 11])
   \<and> NaN \<notin> set [Fin 10, Fin 11]
   \<and> ''pct_chg'' \<in> set STANDARD_COLUMNS
   \<and> projr (getitem (projr (snd (normalize_data False STANDARD_COLUMNS table_two_closes ''600519'')))
              ''pct_chg'') ! 0 = Num (Fin 0)
   \<and> projr (getitem (projr (snd (normalize_data False STANDARD_COLUMNS table_two_closes ''600519'')))
              ''pct_chg'') ! 1 = Num (Fin 10)"
proof -
  have h: "\<not> df_empty table_two_closes"
    "''pct_chg'' \<notin> set (column_names table_two_closes)"
    "getitem table_two_closes ''close'' = Inr (map Num [Fin 10, Fin 11])"
    "NaN \<notin> set [Fin 10, Fin 11]"
    "''pct_chg'' \<in> set STANDARD_COLUMNS"
    by (simp_all add: df_empty_def table_two_closes_def column_names_def getitem_def
          STANDARD_COLUMNS_def)
  have f: "pct_formula (Fin 11) (Fin 10) = Fin 10"
    by (simp add: pct_formula_def)
  from pct_chg_from_close [OF h, of 0 False "''600519''"]
  have r0: "projr (getitem (projr (snd (normalize_data False STANDARD_COLUMNS table_two_closes
              ''600519''))) ''pct_chg'') ! 0 = Num (Fin 0)"
    by auto
  from pct_chg_from_close [OF h, of 1 False "''600519''"]
  have r1: "projr (getitem (projr (snd (normalize_data False STANDARD_COLUMNS table_two_closes
              ''600519''))) ''pct_chg'') ! 1 = Num (Fin 10)"
    by (auto simp: f)
  from h r0 r1 show ?thesis by simp
qed

text \<open>
  C9 as stated fails. A table with rows that lacks both \<^verbatim>\<open>pct_chg\<close> and \<^verbatim>\<open>close\<close> lacks
  standard columns, yet the normalizer raises before its first assignment and the
  caller's table is as it was.
\<close>

theorem normalize_without_close_leaves_input:
  "\<not> df_empty table_date_only
   \<and> ''pct_chg'' \<notin> set (column_names table_date_only)
   \<and> \<not> set STANDARD_COLUMNS \<subseteq> set (column_names table_date_only)
   \<and> fst (normalize_data False STANDARD_COLUMNS table_date_only ''600519'') = table_date_only
   \<and> fst (normalize_data True STANDARD_COLUMNS table_date_only ''600519'') = table_date_only"
  by code_simp

text \<open>
  C9, amended. For a table that is not empty and either has \<^verbatim>\<open>pct_chg\<close> and lacks a
  standard column, or lacks \<^verbatim>\<open>pct_chg\<close> and has a numeric \<^verbatim>\<open>close\<close> column, the normalizer
  changes the caller's table: after the call it is the input with new columns appended,
  at least one, each once, and they are \<^verbatim>\<open>pct_chg\<close> and the standard columns that the input
  lacked.
\<close>

theorem normalize_adds_columns_in_place:
  assumes "\<not> df_empty df"
    and "(''pct_chg'' \<in> set (column_names df) \<and> \<not> set std \<subseteq> set (column_names df))
         \<or> (''pct_chg'' \<notin> set (column_names df) \<and> numeric_column df ''close'')"
  shows "\<exists>new. fst (normalize_data pad std df stock_code) = df\<lparr>cols := cols df @ new\<rparr>
            \<and> new \<noteq> []
            \<and> distinct (map fst new)
            \<and> set (map fst new) = ({''pct_chg''} \<union> set std) - set (column_names df)
            \<and> fst (normalize_data pad std df stock_code) \<noteq> df"
proof -
  from assms(2) have "''pct_chg'' \<in> set (column_names df) \<or> numeric_column df ''close''"
    by blast
  from add_pct_chg_succeeds [OF this, of pad]
  obtain pc where pc: "add_pct_chg pad df = (df\<lparr>cols := cols df @ pc\<rparr>, None)"
    and names_pc: "map fst pc = (if ''pct_chg'' \<in> set (column_names df) then [] else [''pct_chg''])"
    by blast
  define added where "added = new_columns (column_names df @ map fst pc) std"
  define new where "new = pc @ map (\<lambda>c. (c, replicate (nrows df) (Num (Fin 0)))) added"
  have D: "df\<lparr>cols := cols df @ new\<rparr>
      = df\<lparr>cols := cols df @ pc @ map (\<lambda>c. (c, replicate (nrows df) (Num (Fin 0))))
                                  (new_columns (column_names df @ map fst pc) std)\<rparr>"
    by (simp add: new_def added_def)
  from normalize_data_result [OF assms(1) pc D, of stock_code]
  have res: "fst (normalize_data pad std df stock_code) = df\<lparr>cols := cols df @ new\<rparr>"
    by simp
  have names_new: "map fst new = map fst pc @ added"
    by (simp add: new_def comp_def)
  have set_added: "set added = set std - (set (column_names df) \<union> set (map fst pc))"
    by (simp add: added_def set_new_columns)
  have dist: "distinct (map fst new)"
    unfolding names_new using set_added
    by (auto simp: names_pc added_def distinct_new_columns)
  have set_new: "set (map fst new) = ({''pct_chg''} \<union> set std) - set (column_names df)"
    unfolding names_new using set_added by (auto simp: names_pc split: if_splits)
  from assms(2) have "set (map fst new) \<noteq> {}"
    unfolding set_new by auto
  then have ne: "new \<noteq> []" by auto
  have changed: "df\<lparr>cols := cols df @ new\<rparr> \<noteq> df"
  proof
    assume "df\<lparr>cols := cols df @ new\<rparr> = df"
    then have "cols (df\<lparr>cols := cols df @ new\<rparr>) = cols df" by simp
    with ne show False by simp
  qed
  have F: "fst (normalize_data pad std df stock_code) = df\<lparr>cols := cols df @ new\<rparr>
            \<and> new \<noteq> []
            \<and> distinct (map fst new)
            \<and> set (map fst new) = ({''pct_chg''} \<union> set std) - set (column_names df)
            \<and> fst (normalize_data pad std df stock_code) \<noteq> df"
    using res ne dist set_new changed by simp
  show ?thesis by (rule exI [of _ new]) (rule F)
qed

theorem normalize_adds_columns_in_place_witness:
  "\<not> df_empty table_two_closes
   \<and> ''pct_chg'' \<notin> set (column_names table_two_closes)
   \<and> numeric_column table_two_closes ''close''
   \<and> fst (normalize_data False STANDARD_COLUMNS table_two_closes ''600519'') \<noteq> table_two_closes
   \<and> set (column_names (fst (normalize_data False STANDARD_COLUMNS table_two_closes ''600519'')))
       = set (column_names table_two_closes) \<union> {''pct_chg''} \<union> set STANDARD_COLUMNS"
proof -
  have h: "\<not> df_empty table_two_closes"
    "''pct_chg'' \<notin> set (column_names table_two_closes)"
    "numeric_column table_two_closes ''close''"
    by (simp_all add: df_empty_def table_two_closes_def column_names_def numeric_column_def
          getitem_def)
  from h(2,3) have "(''pct_chg'' \<in> set (column_names table_two_closes)
       \<and> \<not> set STANDARD_COLUMNS \<subseteq> set (column_names table_two_closes))
     \<or> (''pct_chg'' \<notin> set (column_names table_two_closes)
          \<and> numeric_column table_two_closes ''close'')"
    by simp
  from normalize_adds_columns_in_place [OF h(1) this, where pad = False and stock_code = "''600519''"]
  obtain new where
    "fst (normalize_data False STANDARD_COLUMNS table_two_closes ''600519'')
       = table_two_closes\<lparr>cols := cols table_two_closes @ new\<rparr>"
    and "set (map fst new) = ({''pct_chg''} \<union> set STANDARD_COLUMNS) - set (column_names table_two_closes)"
    and "fst (normalize_data False STANDARD_COLUMNS table_two_closes ''600519'') \<noteq> table_two_closes"
    by blast
  with h show ?thesis
    by (auto simp: column_names_def)
qed

text \<open>
  C10. The stock code has no influence on the normalizer: neither on what it returns or
  raises nor on what it does to the caller's table.
\<close>

theorem stock_code_ignored:
  "normalize_data pad std df c1 = normalize_data pad std df c2"
  by (simp add: normalize_data_def)

end
